theory Spec2Isabelle
  imports Main "HOL-Library.Word" "HOL-Library.List_Lexorder" "HOL-Library.Multiset"
begin

section \<open>The Speakap Node.js library (node/speakap.js)\<close>

text \<open>
  The library has two parts: the signed-request functions \<open>percentEncode\<close>,
  \<open>signedRequest\<close> and \<open>validateSignature\<close>, and the \<open>API\<close> wrapper with its
  members \<open>delete\<close>, \<open>get\<close>, \<open>post\<close>, \<open>postAction\<close>, \<open>put\<close> and \<open>request\<close>.
  Each function of the file is embedded below under its own name. What the file takes from
  its platform (the HMAC of the crypto module, date parsing and the clock; JSON and the HTTP
  module) is a field of the records \<open>platform\<close> and \<open>runtime\<close>, so that every
  statement holds for whatever the platform computes.
\<close>

subsection \<open>Strings\<close>

text \<open>
  A JavaScript string is a sequence of 16-bit code units. Arrays of strings are sorted by
  \<open>Array.prototype.sort\<close> without a comparator, which orders strings lexicographically by
  code unit: the order of \<open>16 word list\<close>.
\<close>

type_synonym jsstring = "16 word list"

definition js :: "string \<Rightarrow> jsstring" where
  "js s = map of_char s"

text \<open>What the code throws: the \<open>URIError\<close> of \<open>encodeURIComponent\<close>, the \<open>TypeError\<close>
  of calling a value that is not a function, and \<open>new Error(message)\<close>.\<close>

datatype js_error = URIError | TypeError | Error jsstring

subsection \<open>encodeURIComponent and String.prototype.replace\<close>

text \<open>
  \<open>encodeURIComponent\<close> (ECMAScript, Encode with the unreserved set of URI components):
  letters, digits and \<open>- _ . ! ~ * ' ( )\<close> are copied; every other code point is written
  as the \<open>%XX\<close> escapes of the octets of its UTF-8 encoding; a surrogate code unit that is
  not part of a pair throws \<open>URIError\<close>.
\<close>

definition uriUnescaped :: "16 word \<Rightarrow> bool" where
  "uriUnescaped c =
     ((0x41 \<le> c \<and> c \<le> 0x5A) \<or> (0x61 \<le> c \<and> c \<le> 0x7A) \<or> (0x30 \<le> c \<and> c \<le> 0x39) \<or>
      c \<in> set [0x2D, 0x5F, 0x2E, 0x21, 0x7E, 0x2A, 0x27, 0x28, 0x29])"

definition isLeadSurrogate :: "16 word \<Rightarrow> bool" where
  "isLeadSurrogate c = (0xD800 \<le> c \<and> c \<le> 0xDBFF)"

definition isTrailSurrogate :: "16 word \<Rightarrow> bool" where
  "isTrailSurrogate c = (0xDC00 \<le> c \<and> c \<le> 0xDFFF)"

definition utf8 :: "nat \<Rightarrow> nat list" where
  "utf8 v =
     (if v < 0x80 then [v]
      else if v < 0x800 then [0xC0 + v div 0x40, 0x80 + v mod 0x40]
      else if v < 0x10000 then
        [0xE0 + v div 0x1000, 0x80 + (v div 0x40) mod 0x40, 0x80 + v mod 0x40]
      else
        [0xF0 + v div 0x40000, 0x80 + (v div 0x1000) mod 0x40,
         0x80 + (v div 0x40) mod 0x40, 0x80 + v mod 0x40])"

definition hexDigit :: "nat \<Rightarrow> 16 word" where
  "hexDigit n = (if n < 10 then 0x30 + of_nat n else 0x41 + of_nat (n - 10))"

definition escapeOctet :: "nat \<Rightarrow> jsstring" where
  "escapeOctet b = [0x25, hexDigit (b div 16), hexDigit (b mod 16)]"

definition escapeCodePoint :: "nat \<Rightarrow> jsstring" where
  "escapeCodePoint v = concat (map escapeOctet (utf8 v))"

definition prepend :: "jsstring \<Rightarrow> js_error + jsstring \<Rightarrow> js_error + jsstring" where
  "prepend r rest = (case rest of Inl e \<Rightarrow> Inl e | Inr s \<Rightarrow> Inr (r @ s))"

fun encodeURIComponent :: "jsstring \<Rightarrow> js_error + jsstring" where
  "encodeURIComponent [] = Inr []"
| "encodeURIComponent (c # cs) =
     (if uriUnescaped c then prepend [c] (encodeURIComponent cs)
      else if isTrailSurrogate c then Inl URIError
      else if \<not> isLeadSurrogate c then
        prepend (escapeCodePoint (unat c)) (encodeURIComponent cs)
      else
        (case cs of
           [] \<Rightarrow> Inl URIError
         | d # ds \<Rightarrow>
             if \<not> isTrailSurrogate d then Inl URIError
             else prepend
                    (escapeCodePoint
                       ((unat c - 0xD800) * 0x400 + (unat d - 0xDC00) + 0x10000))
                    (encodeURIComponent ds)))"

text \<open>
  \<open>s.replace(pattern, replacement)\<close> with a string pattern replaces the first occurrence
  of the pattern only (a replacement without \<open>$\<close> is inserted as it is).
\<close>

fun replace :: "jsstring \<Rightarrow> jsstring \<Rightarrow> jsstring \<Rightarrow> jsstring" where
  "replace [] pat rep = (if pat = [] then rep else [])"
| "replace (c # cs) pat rep =
     (if take (length pat) (c # cs) = pat then rep @ drop (length pat) (c # cs)
      else c # replace cs pat rep)"

subsection \<open>percentEncode\<close>

definition percentEncode :: "jsstring \<Rightarrow> js_error + jsstring" where
  "percentEncode string =
     (case encodeURIComponent string of
        Inl e \<Rightarrow> Inl e
      | Inr s \<Rightarrow>
          Inr (replace (replace (replace (replace (replace s
                 (js ''!'') (js ''%21'')) [0x27] (js ''%27''))
                 (js ''('') (js ''%28'')) (js '')'') (js ''%29''))
                 (js ''*'') (js ''%2A'')))"

subsection \<open>Parameter sets\<close>

text \<open>
  The POST parameters of a signed request: an object with string values, as the list of
  its properties in the order the object enumerates them (the keys are distinct).
  \<open>params[key]\<close> is \<open>map_of params key\<close>; a missing property reads as \<open>undefined\<close>, which
  \<open>encodeURIComponent\<close> converts to the string \<open>undefined\<close>.
\<close>

type_synonym params = "(jsstring \<times> jsstring) list"

definition toString :: "jsstring option \<Rightarrow> jsstring" where
  "toString v = (case v of None \<Rightarrow> js ''undefined'' | Some s \<Rightarrow> s)"

definition lodash_keys :: "params \<Rightarrow> jsstring list" where
  "lodash_keys params = map fst params"

definition lodash_without :: "jsstring list \<Rightarrow> jsstring \<Rightarrow> jsstring list" where
  "lodash_without array v = filter (\<lambda>x. x \<noteq> v) array"

text \<open>\<open>_.map(array, f)\<close> for a callback that may throw: the first exception ends the map.\<close>

fun lodash_map :: "('a \<Rightarrow> js_error + 'b) \<Rightarrow> 'a list \<Rightarrow> js_error + 'b list" where
  "lodash_map f [] = Inr []"
| "lodash_map f (x # xs) =
     (case f x of
        Inl e \<Rightarrow> Inl e
      | Inr y \<Rightarrow> (case lodash_map f xs of Inl e \<Rightarrow> Inl e | Inr ys \<Rightarrow> Inr (y # ys)))"

fun join :: "jsstring list \<Rightarrow> jsstring \<Rightarrow> jsstring" where
  "join [] sep = []"
| "join [x] sep = x"
| "join (x # y # ys) sep = x @ sep @ join (y # ys) sep"

text \<open>The callback both functions map over the keys:
  \<open>percentEncode(key) + "=" + percentEncode(params[key])\<close>.\<close>

definition keyValue :: "params \<Rightarrow> jsstring \<Rightarrow> js_error + jsstring" where
  "keyValue params key =
     (case percentEncode key of
        Inl e \<Rightarrow> Inl e
      | Inr k \<Rightarrow>
          (case percentEncode (toString (map_of params key)) of
             Inl e \<Rightarrow> Inl e
           | Inr v \<Rightarrow> Inr (k @ js ''='' @ v)))"

subsection \<open>signedRequest\<close>

definition signedRequest :: "params \<Rightarrow> js_error + jsstring" where
  "signedRequest params =
     (let keys = lodash_without (lodash_keys params) (js ''signature'');
          keys = sort keys;
          keys = keys @ [js ''signature'']
      in case lodash_map (keyValue params) keys of
           Inl e \<Rightarrow> Inl e
         | Inr pairs \<Rightarrow> Inr (join pairs (js ''&'')))"

subsection \<open>validateSignature\<close>

text \<open>
  What \<open>validateSignature\<close> takes from the platform: the base64 digest of the HMAC-SHA256
  of a message under a key
  (\<open>crypto.createHmac("sha256", key).update(message).digest("base64")\<close>),
  \<open>new Date(v).getTime()\<close> and \<open>Date.now()\<close>. A JavaScript number is an integer number of
  milliseconds or \<open>NaN\<close> (\<open>None\<close>): \<open>NaN + x\<close> is \<open>NaN\<close>, and every comparison
  with \<open>NaN\<close> is false.
\<close>

type_synonym number = "int option"

definition num_add :: "number \<Rightarrow> number \<Rightarrow> number" where
  "num_add a b =
     (case a of
        None \<Rightarrow> None
      | Some x \<Rightarrow> (case b of None \<Rightarrow> None | Some y \<Rightarrow> Some (x + y)))"

definition num_gt :: "number \<Rightarrow> number \<Rightarrow> bool" where
  "num_gt a b =
     (case a of
        None \<Rightarrow> False
      | Some x \<Rightarrow> (case b of None \<Rightarrow> False | Some y \<Rightarrow> x > y))"

record platform =
  hmac_sha256_base64 :: "jsstring \<Rightarrow> jsstring \<Rightarrow> jsstring"
  Date_getTime :: "jsstring option \<Rightarrow> number"
  Date_now :: int

definition SIGNATURE_WINDOW_SIZE :: int where
  "SIGNATURE_WINDOW_SIZE = 60 * 1000"

text \<open>The local variable \<open>queryString\<close> of \<open>validateSignature\<close>: the canonical string.\<close>

definition queryString :: "params \<Rightarrow> js_error + jsstring" where
  "queryString params =
     (let keys = sort (lodash_keys params)
      in case lodash_map (keyValue params) (lodash_without keys (js ''signature'')) of
           Inl e \<Rightarrow> Inl e
         | Inr pairs \<Rightarrow> Inr (join pairs (js ''&'')))"

definition validateSignature :: "platform \<Rightarrow> params \<Rightarrow> jsstring \<Rightarrow> js_error + unit" where
  "validateSignature pf params appSecret =
     (case queryString params of
        Inl e \<Rightarrow> Inl e
      | Inr qs \<Rightarrow>
          (let computedHash = hmac_sha256_base64 pf appSecret qs
           in if Some computedHash \<noteq> map_of params (js ''signature'')
              then Inl (Error (js ''Invalid signature: '' @ qs))
              else
                (let issuedAt = Date_getTime pf (map_of params (js ''issuedAt''))
                 in if num_gt (Some (Date_now pf)) (num_add issuedAt (Some SIGNATURE_WINDOW_SIZE))
                    then Inl (Error (js ''Expired signature''))
                    else Inr ())))"

section \<open>The API wrapper\<close>

subsection \<open>Values\<close>

text \<open>
  Parsed JSON, and the objects the wrapper hands to a callback. The wrapper never inspects
  a number; \<open>-1000\<close> and \<open>-1001\<close> are the only ones it creates.
\<close>

datatype json =
  JNull | JBool bool | JNum int | JStr jsstring | JArr "json list" | JObj "(jsstring \<times> json) list"

text \<open>The per-call options object: a property that is missing is \<open>None\<close>.\<close>

record options =
  accept :: "jsstring option"
  accessToken :: "jsstring option"
  contentType :: "jsstring option"

definition empty_options :: options where
  "empty_options = \<lparr> accept = None, accessToken = None, contentType = None \<rparr>"

text \<open>
  What a caller can pass in the \<open>options\<close> and the \<open>callback\<close> position: any value. A
  function is known by an identifier, and calling it is recorded.
\<close>

datatype arg = Undefined | Null | Bool bool | Num int | Str jsstring | Object options | Function nat

fun isObject :: "arg \<Rightarrow> bool" where
  "isObject (Object _) = True"
| "isObject (Function _) = True"
| "isObject _ = False"

fun isFunction :: "arg \<Rightarrow> bool" where
  "isFunction (Function _) = True"
| "isFunction _ = False"

text \<open>Truthiness, of a value and of a property that is a string or \<open>undefined\<close>.\<close>

fun truthy_arg :: "arg \<Rightarrow> bool" where
  "truthy_arg Undefined = False"
| "truthy_arg Null = False"
| "truthy_arg (Bool b) = b"
| "truthy_arg (Num n) = (n \<noteq> 0)"
| "truthy_arg (Str s) = (s \<noteq> [])"
| "truthy_arg (Object _) = True"
| "truthy_arg (Function _) = True"

definition truthy :: "jsstring option \<Rightarrow> bool" where
  "truthy v = (case v of None \<Rightarrow> False | Some s \<Rightarrow> s \<noteq> [])"

text \<open>\<open>a || b\<close>, for \<open>b\<close> a property and for \<open>b\<close> a string.\<close>

definition or_else :: "jsstring option \<Rightarrow> jsstring option \<Rightarrow> jsstring option" where
  "or_else a b = (if truthy a then a else b)"

definition or_default :: "jsstring option \<Rightarrow> jsstring \<Rightarrow> jsstring" where
  "or_default a b = (if truthy a then toString a else b)"

subsection \<open>The constructor\<close>

record config =
  scheme :: "jsstring option"
  hostname :: "jsstring option"
  appId :: "jsstring option"
  appSecret :: "jsstring option"
  apiVersion :: "jsstring option"

text \<open>The fields of \<open>this\<close>; \<open>this.scheme\<close> is the module loaded under the scheme's name.\<close>

record api =
  this_scheme :: "jsstring option"
  this_hostname :: "jsstring option"
  this_appId :: "jsstring option"
  this_appSecret :: "jsstring option"
  this_apiVersion :: jsstring
  this_accessToken :: "jsstring option"

definition InvalidConfig :: js_error where
  "InvalidConfig = Error (js ''Speakap scheme should be http or https'')"

definition API :: "config \<Rightarrow> js_error + api" where
  "API config =
     (if scheme config \<noteq> Some (js ''http'') \<and> scheme config \<noteq> Some (js ''https'')
      then Inl InvalidConfig
      else Inr \<lparr> this_scheme = scheme config,
                 this_hostname = hostname config,
                 this_appId = appId config,
                 this_appSecret = appSecret config,
                 this_apiVersion = or_default (apiVersion config) (js ''1.1''),
                 this_accessToken =
                   (if truthy (appId config) \<and> truthy (appSecret config)
                    then Some (toString (appId config) @ js ''_'' @ toString (appSecret config))
                    else None) \<rparr>)"

subsection \<open>Requests, replies and effects\<close>

record headers =
  Accept :: jsstring
  Authorization :: "jsstring option"
  Content_length :: "nat option"
  Content_type :: "jsstring option"

record http_request =
  req_headers :: headers
  req_hostname :: "jsstring option"
  req_method :: jsstring
  req_path :: jsstring
  req_body :: "jsstring option"

text \<open>
  What the network does with a request: the request object emits \<open>error\<close>, or a response
  arrives with a status code and its body in chunks.
\<close>

datatype reply = RequestError json | Response int "jsstring list"

record runtime =
  JSON_parse :: "jsstring \<Rightarrow> json option"
  JSON_stringify :: "json \<Rightarrow> jsstring option"
  http_transport :: "http_request \<Rightarrow> reply"

text \<open>
  What a call does: the HTTP requests it issues, the texts it gives to \<open>JSON.parse\<close>, the
  callbacks it invokes with their argument lists (an argument that is not passed is
  \<open>undefined\<close>), and the exception it ends with, if any.
\<close>

record effects =
  requests :: "http_request list"
  parses :: "jsstring list"
  callbacks :: "(nat \<times> json list) list"
  thrown :: "js_error option"

definition no_effects :: effects where
  "no_effects = \<lparr> requests = [], parses = [], callbacks = [], thrown = None \<rparr>"

definition threw :: "js_error \<Rightarrow> effects" where
  "threw e = no_effects \<lparr> thrown := Some e \<rparr>"

text \<open>\<open>if (callback) { callback(args); }\<close>: calling a truthy value that is not a function
  throws \<open>TypeError\<close>.\<close>

definition invokeCallback :: "arg \<Rightarrow> json list \<Rightarrow> effects" where
  "invokeCallback callback args =
     (if truthy_arg callback
      then (case callback of
              Function f \<Rightarrow> no_effects \<lparr> callbacks := [(f, args)] \<rparr>
            | _ \<Rightarrow> threw TypeError)
      else no_effects)"

subsection \<open>request\<close>

text \<open>The byte length of \<open>new Buffer(data)\<close>: the UTF-8 encoding of the string, a
  surrogate outside a pair encoded as U+FFFD.\<close>

fun byteLength :: "jsstring \<Rightarrow> nat" where
  "byteLength [] = 0"
| "byteLength (c # cs) =
     (if c < 0x80 then 1 + byteLength cs
      else if c < 0x800 then 2 + byteLength cs
      else if isLeadSurrogate c then
        (case cs of
           [] \<Rightarrow> 3
         | d # ds \<Rightarrow> if isTrailSurrogate d then 4 + byteLength ds else 3 + byteLength cs)
      else 3 + byteLength cs)"

text \<open>The first statement of \<open>request\<close> and of \<open>postAction\<close>:
  \<open>if (!_.isObject(options) || _.isFunction(options)) { callback = options; options = {}; }\<close>.\<close>

definition optionsOrCallback :: "arg \<Rightarrow> arg \<Rightarrow> options \<times> arg" where
  "optionsOrCallback options callback =
     (if \<not> isObject options \<or> isFunction options then (empty_options, options)
      else (case options of Object opts \<Rightarrow> (opts, callback) | _ \<Rightarrow> (empty_options, callback)))"

definition requestHeaders :: "api \<Rightarrow> jsstring option \<Rightarrow> options \<Rightarrow> headers" where
  "requestHeaders this data options =
     (let accessToken = or_else (accessToken options) (this_accessToken this)
      in \<lparr> Accept = or_default (accept options)
                       (js ''application/vnd.speakap.api-v'' @ this_apiVersion this @ js ''+json''),
           Authorization =
             (if truthy accessToken then Some (js ''Bearer '' @ toString accessToken) else None),
           Content_length = (if truthy data then Some (byteLength (toString data)) else None),
           Content_type =
             (if truthy data
              then Some (or_default (contentType options) (js ''application/json'')
                         @ js ''; charset=utf-8'')
              else None) \<rparr>)"

definition buildRequest ::
  "api \<Rightarrow> jsstring \<Rightarrow> jsstring \<Rightarrow> jsstring option \<Rightarrow> options \<Rightarrow> http_request" where
  "buildRequest this method path data options =
     \<lparr> req_headers = requestHeaders this data options,
       req_hostname = this_hostname this,
       req_method = method,
       req_path = path,
       req_body = (if truthy data then data else None) \<rparr>"

definition unexpectedReply :: "jsstring \<Rightarrow> json" where
  "unexpectedReply responseBody =
     JObj [(js ''code'', JNum (- 1001)),
           (js ''message'', JStr (js ''Unexpected Reply'')),
           (js ''description'', JStr responseBody)]"

definition requestFailed :: "json \<Rightarrow> json" where
  "requestFailed error =
     JObj [(js ''code'', JNum (- 1000)),
           (js ''message'', JStr (js ''Request Failed'')),
           (js ''requestError'', error)]"

text \<open>The handler of the response's \<open>end\<close> event: \<open>error\<close> and \<open>result\<close> start as
  \<open>null\<close>; an exception of \<open>JSON.parse\<close> is caught.\<close>

definition onEnd :: "runtime \<Rightarrow> arg \<Rightarrow> int \<Rightarrow> jsstring \<Rightarrow> effects" where
  "onEnd rt callback statusCode responseBody =
     (if statusCode = 204 then invokeCallback callback [JNull, JBool True]
      else if statusCode \<ge> 200 \<and> statusCode < 300 then
        (case JSON_parse rt responseBody of
           Some parsed \<Rightarrow> invokeCallback callback [JNull, parsed]
         | None \<Rightarrow> invokeCallback callback [unexpectedReply responseBody, JNull])
        \<lparr> parses := [responseBody] \<rparr>
      else
        (case JSON_parse rt responseBody of
           Some parsed \<Rightarrow> invokeCallback callback [parsed, JNull]
         | None \<Rightarrow> invokeCallback callback [unexpectedReply responseBody, JNull])
        \<lparr> parses := [responseBody] \<rparr>)"

text \<open>The handler of the request's \<open>error\<close> event.\<close>

definition onError :: "arg \<Rightarrow> json \<Rightarrow> effects" where
  "onError callback error = invokeCallback callback [requestFailed error]"

definition request ::
  "runtime \<Rightarrow> api \<Rightarrow> jsstring \<Rightarrow> jsstring \<Rightarrow> jsstring option \<Rightarrow> arg \<Rightarrow> arg \<Rightarrow> effects" where
  "request rt this method path data options callback =
     (case optionsOrCallback options callback of
        (options, callback) \<Rightarrow>
          (let req = buildRequest this method path data options
           in (case http_transport rt req of
                 Response statusCode chunks \<Rightarrow> onEnd rt callback statusCode (concat chunks)
               | RequestError error \<Rightarrow> onError callback error)
              \<lparr> requests := [req] \<rparr>))"

subsection \<open>The members that call the pipeline\<close>

text \<open>
  \<open>_.extend(API.prototype, {...})\<close> defines six members and no other; the constructor
  adds none that is a function. A member called as \<open>this.name(...)\<close> is looked up by name,
  and calling a name that is not defined throws \<open>TypeError\<close> after the arguments have been
  evaluated. \<open>request\<close> is the only member that the file calls with the five arguments of
  the pipeline.
\<close>

definition API_prototype :: "string list" where
  "API_prototype = [''delete'', ''get'', ''post'', ''postAction'', ''put'', ''request'']"

definition this_member ::
  "string \<Rightarrow>
   (runtime \<Rightarrow> api \<Rightarrow> jsstring \<Rightarrow> jsstring \<Rightarrow> jsstring option \<Rightarrow> arg \<Rightarrow> arg \<Rightarrow> effects) option" where
  "this_member name =
     (if name \<in> set API_prototype \<and> name = ''request'' then Some request else None)"

definition call_this ::
  "string \<Rightarrow> runtime \<Rightarrow> api \<Rightarrow> jsstring \<Rightarrow> jsstring \<Rightarrow> jsstring option \<Rightarrow> arg \<Rightarrow> arg \<Rightarrow> effects" where
  "call_this name rt this method path data options callback =
     (case this_member name of
        None \<Rightarrow> threw TypeError
      | Some member \<Rightarrow> member rt this method path data options callback)"

definition delete :: "runtime \<Rightarrow> api \<Rightarrow> jsstring \<Rightarrow> arg \<Rightarrow> arg \<Rightarrow> effects" where
  "delete rt this path options callback =
     call_this ''request'' rt this (js ''DELETE'') path None options callback"

definition get :: "runtime \<Rightarrow> api \<Rightarrow> jsstring \<Rightarrow> arg \<Rightarrow> arg \<Rightarrow> effects" where
  "get rt this path options callback =
     call_this ''request'' rt this (js ''GET'') path None options callback"

definition post :: "runtime \<Rightarrow> api \<Rightarrow> jsstring \<Rightarrow> json \<Rightarrow> arg \<Rightarrow> arg \<Rightarrow> effects" where
  "post rt this path data options callback =
     call_this ''request'' rt this (js ''POST'') path (JSON_stringify rt data) options callback"

definition put :: "runtime \<Rightarrow> api \<Rightarrow> jsstring \<Rightarrow> json \<Rightarrow> arg \<Rightarrow> arg \<Rightarrow> effects" where
  "put rt this path data options callback =
     call_this ''_request'' rt this (js ''PUT'') path (JSON_stringify rt data) options callback"

text \<open>\<open>postAction\<close>: the form encoding of \<open>data\<close> (\<open>null\<close> is \<open>None\<close>), the options with
  the content type of forms as their default, and the call of \<open>this._request\<close>.\<close>

definition formPair :: "jsstring \<times> jsstring \<Rightarrow> js_error + jsstring" where
  "formPair kv =
     (case encodeURIComponent (fst kv) of
        Inl e \<Rightarrow> Inl e
      | Inr k \<Rightarrow>
          (case encodeURIComponent (snd kv) of
             Inl e \<Rightarrow> Inl e
           | Inr v \<Rightarrow> Inr (k @ js ''='' @ v)))"

definition formData :: "params option \<Rightarrow> js_error + jsstring option" where
  "formData data =
     (case data of
        None \<Rightarrow> Inr None
      | Some d \<Rightarrow>
          (case lodash_map formPair d of
             Inl e \<Rightarrow> Inl e
           | Inr pairs \<Rightarrow> Inr (Some (join pairs (js ''&'')))))"

text \<open>\<open>_.extend(destination, source)\<close> on options objects.\<close>

definition extend :: "options \<Rightarrow> options \<Rightarrow> options" where
  "extend destination source =
     \<lparr> accept = (case accept source of None \<Rightarrow> accept destination | Some v \<Rightarrow> Some v),
       accessToken =
         (case accessToken source of None \<Rightarrow> accessToken destination | Some v \<Rightarrow> Some v),
       contentType =
         (case contentType source of None \<Rightarrow> contentType destination | Some v \<Rightarrow> Some v) \<rparr>"

text \<open>The arguments \<open>postAction\<close> evaluates for its call of \<open>this._request\<close>.\<close>

definition postAction_arguments ::
  "params option \<Rightarrow> arg \<Rightarrow> arg \<Rightarrow> js_error + (jsstring option \<times> options \<times> arg)" where
  "postAction_arguments data options callback =
     (case formData data of
        Inl e \<Rightarrow> Inl e
      | Inr data \<Rightarrow>
          (case optionsOrCallback options callback of
             (options, callback) \<Rightarrow>
               Inr (data,
                    extend (empty_options
                              \<lparr> contentType := Some (js ''application/x-www-form-urlencoded'') \<rparr>)
                           options,
                    callback)))"

definition postAction ::
  "runtime \<Rightarrow> api \<Rightarrow> jsstring \<Rightarrow> params option \<Rightarrow> arg \<Rightarrow> arg \<Rightarrow> effects" where
  "postAction rt this path data options callback =
     (case postAction_arguments data options callback of
        Inl e \<Rightarrow> threw e
      | Inr (data, options, callback) \<Rightarrow>
          call_this ''_request'' rt this (js ''POST'') path data (Object options) callback)"

section \<open>Concrete inputs\<close>

text \<open>
  The closed instances below run the functions on concrete inputs. For these, the platform
  is replaced by fragments of it: functions that agree with the platform on the inputs the
  instances use. The digest is the HMAC-SHA256 of \<open>issuedAt=not%20a%20date\<close> under the
  key \<open>s3cr3t\<close>; \<open>new Date("not a date").getTime()\<close> is \<open>NaN\<close>.
\<close>

definition hmac_fragment :: "jsstring \<Rightarrow> jsstring \<Rightarrow> jsstring" where
  "hmac_fragment key message =
     (if key = js ''s3cr3t'' \<and> message = js ''issuedAt=not%20a%20date''
      then js ''4DR7yH1EDcZ4Uvj8Dyjd8PuouwPAboBbN/LphNfhe5Q=''
      else [])"

definition getTime_fragment :: "jsstring option \<Rightarrow> number" where
  "getTime_fragment v =
     (if v = Some (js ''1970-01-01T00:00:00.000Z'') then Some 0
      else if v = Some (js ''2014-06-01T12:00:00.000Z'') then Some 1401624000000
      else None)"

definition example_platform :: platform where
  "example_platform =
     \<lparr> hmac_sha256_base64 = hmac_fragment,
       Date_getTime = getTime_fragment,
       Date_now = 1401624030000 \<rparr>"

definition undated_params :: params where
  "undated_params =
     [(js ''issuedAt'', js ''not a date''),
      (js ''signature'', js ''4DR7yH1EDcZ4Uvj8Dyjd8PuouwPAboBbN/LphNfhe5Q='')]"

definition JSON_parse_fragment :: "jsstring \<Rightarrow> json option" where
  "JSON_parse_fragment text =
     (if text = js ''null'' then Some JNull
      else if text = js ''false'' then Some (JBool False)
      else if text = js ''[]'' then Some (JArr [])
      else if text = js ''{}'' then Some (JObj [])
      else None)"

definition JSON_stringify_fragment :: "json \<Rightarrow> jsstring option" where
  "JSON_stringify_fragment v =
     (if v = JNull then Some (js ''null'')
      else if v = JObj [] then Some (js ''{}'')
      else None)"

text \<open>A server that answers by path, and refuses the connection for any other path.\<close>

definition mock_server :: "http_request \<Rightarrow> reply" where
  "mock_server req =
     (if req_path req = js ''/no-content'' then Response 204 []
      else if req_path req = js ''/null'' then Response 200 [js ''null'']
      else if req_path req = js ''/false'' then Response 200 [js ''fal'', js ''se'']
      else if req_path req = js ''/list'' then Response 200 [js ''['', js '']'']
      else if req_path req = js ''/missing'' then Response 404 [js ''{}'']
      else if req_path req = js ''/garbled'' then Response 200 [js ''not json'']
      else RequestError (JStr (js ''ECONNREFUSED'')))"

definition mock_runtime :: runtime where
  "mock_runtime =
     \<lparr> JSON_parse = JSON_parse_fragment,
       JSON_stringify = JSON_stringify_fragment,
       http_transport = mock_server \<rparr>"

definition example_config :: config where
  "example_config =
     \<lparr> scheme = Some (js ''https''), hostname = Some (js ''api.speakap.io''),
       appId = Some (js ''app''), appSecret = Some (js ''secret''), apiVersion = None \<rparr>"

definition example_client :: api where
  "example_client =
     \<lparr> this_scheme = Some (js ''https''), this_hostname = Some (js ''api.speakap.io''),
       this_appId = Some (js ''app''), this_appSecret = Some (js ''secret''),
       this_apiVersion = js ''1.1'', this_accessToken = Some (js ''app_secret'') \<rparr>"

text \<open>A callback argument is populated when it is passed and is not \<open>null\<close>.\<close>

definition populated :: "json list \<Rightarrow> nat \<Rightarrow> bool" where
  "populated args i = (i < length args \<and> args ! i \<noteq> JNull)"

section \<open>Theorems\<close>

lemmas signing_defs =
  validateSignature_def queryString_def signedRequest_def keyValue_def percentEncode_def
  toString_def lodash_keys_def lodash_without_def js_def prepend_def uriUnescaped_def
  isTrailSurrogate_def isLeadSurrogate_def escapeCodePoint_def escapeOctet_def utf8_def
  hexDigit_def num_gt_def num_add_def

lemmas concrete_defs =
  mock_runtime_def mock_server_def JSON_parse_fragment_def JSON_stringify_fragment_def
  example_client_def request_def optionsOrCallback_def buildRequest_def requestHeaders_def
  onEnd_def onError_def invokeCallback_def no_effects_def threw_def empty_options_def
  or_else_def or_default_def truthy_def toString_def unexpectedReply_def requestFailed_def
  populated_def js_def Let_def

subsection \<open>percentEncode\<close>

text \<open>
  C3 (the claim: percentEncode escapes every occurrence of each of \<open>! ' ( ) *\<close>, not
  just the first). The code escapes the first occurrence of each only: on the input
  \<open>!!\<close> it returns \<open>%21!\<close>, where the claim requires \<open>%21%21\<close>, and in
  \<open>f(a)*g(b)*\<close> the second pair of parentheses and the second asterisk stay.
\<close>

theorem percentEncode_first_occurrence_only:
  "percentEncode (js ''!!'') = Inr (js ''%21!'') \<and>
   percentEncode (js ''f(a)*g(b)*'') = Inr (js ''f%28a%29%2Ag(b)*'')"
  by (simp add: percentEncode_def js_def prepend_def uriUnescaped_def)

lemma percentEncode_signature: "percentEncode (js ''signature'') = Inr (js ''signature'')"
  by (simp add: percentEncode_def js_def prepend_def uriUnescaped_def)

text \<open>The escapes of \<open>encodeURIComponent\<close> on text outside ASCII, on a surrogate without
  its pair, and on the reserved characters of a query string.\<close>

lemma encodeURIComponent_examples:
  "encodeURIComponent [0xE9, 0x20AC, 0xD83D, 0xDE00, 0x7E]
     = Inr (js ''%C3%A9%E2%82%AC%F0%9F%98%80~'')"
  "encodeURIComponent [0x61, 0xD83D] = Inl URIError"
  "encodeURIComponent [0xDE00, 0x61] = Inl URIError"
  "encodeURIComponent (js ''a b&c=d/e?f+g'') = Inr (js ''a%20b%26c%3Dd%2Fe%3Ff%2Bg'')"
  by (simp_all add: signing_defs)

subsection \<open>The canonical string\<close>

text \<open>Two enumerations of one object: the same properties in another order.\<close>

lemma map_of_perm:
  assumes "distinct (map fst P)" "mset Q = mset P"
  shows "map_of Q = map_of P"
proof -
  have "mset (map fst Q) = mset (map fst P)"
    using assms(2) by (metis mset_map)
  then have "distinct (map fst Q)"
    using assms(1) by (metis mset_eq_imp_distinct_iff)
  moreover have "set Q = set P"
    using assms(2) by (metis mset_eq_setD)
  ultimately show ?thesis
    using assms(1) by (simp add: map_of_inject_set)
qed

lemma sort_keys_perm:
  assumes "mset Q = mset P"
  shows "sort (lodash_keys Q) = sort (lodash_keys P)"
proof -
  have "mset (map fst Q) = mset (map fst P)"
    using assms by (metis mset_map)
  then show ?thesis
    unfolding lodash_keys_def by (intro properties_for_sort) simp_all
qed

lemma keyValue_perm:
  assumes "distinct (map fst P)" "mset Q = mset P"
  shows "keyValue Q = keyValue P"
proof
  fix key
  show "keyValue Q key = keyValue P key"
    unfolding keyValue_def map_of_perm [OF assms] by (rule refl)
qed

lemma without_sort: "lodash_without (sort ks) v = sort (lodash_without ks v)"
  by (simp add: lodash_without_def filter_sort)

text \<open>
  C4: for a parameter set without the key \<open>signature\<close>, the canonical string (the
  percent-encoded \<open>key=value\<close> pairs in ascending key order, joined by \<open>&\<close>) is the same
  for every order in which the parameters were inserted. \<open>P\<close> and \<open>Q\<close> are two
  enumerations of the same properties; the string \<open>validateSignature\<close> signs is the same
  for both, and so is the result of \<open>signedRequest\<close>.
\<close>

theorem canonical_string_order_independent:
  assumes "distinct (map fst P)" and "mset Q = mset P"
    and "js ''signature'' \<notin> set (lodash_keys P)"
  shows "queryString Q = queryString P \<and> signedRequest Q = signedRequest P"
proof -
  have k: "keyValue Q = keyValue P"
    using assms(1,2) by (rule keyValue_perm)
  have s: "sort (lodash_keys Q) = sort (lodash_keys P)"
    using assms(2) by (rule sort_keys_perm)
  have q: "queryString Q = queryString P"
    by (simp add: queryString_def k s)
  have "sort (lodash_without (lodash_keys Q) (js ''signature''))
      = sort (lodash_without (lodash_keys P) (js ''signature''))"
    using s by (simp add: without_sort [symmetric])
  then have "signedRequest Q = signedRequest P"
    by (simp add: signedRequest_def k)
  with q show ?thesis by simp
qed

text \<open>The parameters \<open>b = "x y"\<close> and \<open>a = "1"\<close>, inserted in either order.\<close>

theorem canonical_string_order_independent_witness:
  "queryString [(js ''a'', js ''1''), (js ''b'', js ''x y'')]
     = queryString [(js ''b'', js ''x y''), (js ''a'', js ''1'')] \<and>
   signedRequest [(js ''a'', js ''1''), (js ''b'', js ''x y'')]
     = signedRequest [(js ''b'', js ''x y''), (js ''a'', js ''1'')] \<and>
   queryString [(js ''b'', js ''x y''), (js ''a'', js ''1'')] = Inr (js ''a=1&b=x%20y'')"
proof -
  have d: "distinct (map fst [(js ''b'', js ''x y''), (js ''a'', js ''1'')])"
    by (simp add: js_def)
  have m: "mset [(js ''a'', js ''1''), (js ''b'', js ''x y'')]
      = mset [(js ''b'', js ''x y''), (js ''a'', js ''1'')]"
    by (simp add: add_mset_commute)
  have s: "js ''signature'' \<notin> set (lodash_keys [(js ''b'', js ''x y''), (js ''a'', js ''1'')])"
    by (simp add: lodash_keys_def js_def)
  have v: "queryString [(js ''b'', js ''x y''), (js ''a'', js ''1'')] = Inr (js ''a=1&b=x%20y'')"
    by (simp add: signing_defs)
  from canonical_string_order_independent [OF d m s] v show ?thesis
    by simp
qed

subsection \<open>signedRequest\<close>

lemma lodash_map_append:
  "lodash_map f (xs @ ys) =
     (case lodash_map f xs of
        Inl e \<Rightarrow> Inl e
      | Inr a \<Rightarrow> (case lodash_map f ys of Inl e \<Rightarrow> Inl e | Inr b \<Rightarrow> Inr (a @ b)))"
  by (induction xs) (auto split: sum.splits)

lemma lodash_map_results:
  "lodash_map f xs = Inr ys \<Longrightarrow>
     length ys = length xs \<and> (\<forall>y \<in> set ys. \<exists>x \<in> set xs. f x = Inr y)"
  by (induction xs arbitrary: ys) (auto split: sum.splits)

lemma join_snoc:
  "join (ps @ [x]) sep = (if ps = [] then x else join ps sep @ sep @ x)"
  by (induction ps sep rule: join.induct) auto

lemma join_eq_Nil:
  "\<forall>p \<in> set ps. p \<noteq> [] \<Longrightarrow> join ps sep = [] \<longleftrightarrow> ps = []"
  by (induction ps sep rule: join.induct) auto

lemma keyValue_not_Nil: "keyValue params key = Inr p \<Longrightarrow> p \<noteq> []"
  by (auto simp: keyValue_def js_def split: sum.splits)

lemma keyValue_signature:
  "keyValue params (js ''signature'') =
     (case percentEncode (toString (map_of params (js ''signature''))) of
        Inl e \<Rightarrow> Inl e
      | Inr s \<Rightarrow> Inr (js ''signature='' @ s))"
  unfolding keyValue_def percentEncode_signature by (simp add: js_def split: sum.splits)

text \<open>
  C5, as the claim states it: the signature pair is appended only if the parameters hold a
  signature. The code appends the key \<open>signature\<close> in every case: for the parameters
  \<open>{a: "1"}\<close>, which hold none, the canonical string is \<open>a=1\<close> and \<open>signedRequest\<close>
  returns \<open>a=1&signature=undefined\<close>.
\<close>

theorem signedRequest_without_signature_counterexample:
  "map_of [(js ''a'', js ''1'')] (js ''signature'') = None \<and>
   queryString [(js ''a'', js ''1'')] = Inr (js ''a=1'') \<and>
   signedRequest [(js ''a'', js ''1'')] = Inr (js ''a=1&signature=undefined'') \<and>
   signedRequest [(js ''a'', js ''1'')] \<noteq> queryString [(js ''a'', js ''1'')]"
  by (simp add: signing_defs)

text \<open>
  C5, amended: \<open>signedRequest(params)\<close> is the canonical string of the parameters without
  the key \<open>signature\<close>, followed in every case by a last pair \<open>signature=v\<close> (after \<open>&\<close>
  when the canonical string is not empty), where \<open>v\<close> is the percent-encoded value of the
  existing signature entry, and the text \<open>undefined\<close> when there is none. The function
  takes no key and computes no signature. (If \<open>encodeURIComponent\<close> throws on a key or a
  value, both sides throw.)
\<close>

theorem signedRequest_appends_signature:
  "signedRequest params =
     (case queryString params of
        Inl e \<Rightarrow> Inl e
      | Inr c \<Rightarrow>
          (case percentEncode (toString (map_of params (js ''signature''))) of
             Inl e \<Rightarrow> Inl e
           | Inr s \<Rightarrow>
               Inr (if c = [] then js ''signature='' @ s else c @ js ''&signature='' @ s)))"
proof -
  define ks where "ks = sort (lodash_without (lodash_keys params) (js ''signature''))"
  have q: "queryString params =
      (case lodash_map (keyValue params) ks of
         Inl e \<Rightarrow> Inl e | Inr ps \<Rightarrow> Inr (join ps (js ''&'')))"
    by (simp add: queryString_def ks_def without_sort)
  have s: "signedRequest params =
      (case lodash_map (keyValue params) (ks @ [js ''signature'']) of
         Inl e \<Rightarrow> Inl e | Inr ps \<Rightarrow> Inr (join ps (js ''&'')))"
    by (simp add: signedRequest_def ks_def)
  show ?thesis
  proof (cases "lodash_map (keyValue params) ks")
    case (Inl e)
    then show ?thesis by (simp add: q s lodash_map_append)
  next
    case (Inr ps)
    have ne: "\<forall>p \<in> set ps. p \<noteq> []"
      using lodash_map_results [OF Inr] keyValue_not_Nil by blast
    have amp: "js ''&'' @ js ''signature='' @ t = js ''&signature='' @ t" for t
      by (simp add: js_def)
    show ?thesis
    proof (cases "percentEncode (toString (map_of params (js ''signature'')))")
      case (Inl e)
      then show ?thesis by (simp add: q s lodash_map_append Inr keyValue_signature)
    next
      case sig: (Inr sg)
      show ?thesis
        using join_eq_Nil [OF ne, of "js ''&''"]
        by (simp add: q s lodash_map_append Inr keyValue_signature sig join_snoc amp)
    qed
  qed
qed

text \<open>With a signature entry, inserted first: it comes last, percent-encoded.\<close>

theorem signedRequest_appends_signature_witness:
  "signedRequest [(js ''signature'', js ''ab+/=''), (js ''b'', js ''x y''), (js ''a'', js ''1'')]
     = Inr (js ''a=1&b=x%20y&signature=ab%2B%2F%3D'')"
proof -
  have "queryString [(js ''signature'', js ''ab+/=''), (js ''b'', js ''x y''), (js ''a'', js ''1'')]
      = Inr (js ''a=1&b=x%20y'')"
    by (simp add: signing_defs)
  moreover have "percentEncode (toString (map_of
      [(js ''signature'', js ''ab+/=''), (js ''b'', js ''x y''), (js ''a'', js ''1'')]
      (js ''signature''))) = Inr (js ''ab%2B%2F%3D'')"
    by (simp add: signing_defs)
  ultimately show ?thesis
    using signedRequest_appends_signature
      [of "[(js ''signature'', js ''ab+/=''), (js ''b'', js ''x y''), (js ''a'', js ''1'')]"]
    by (simp add: js_def)
qed

subsection \<open>validateSignature\<close>

text \<open>When \<open>validateSignature\<close> returns: the expiry test passes whenever the time of
  issue is \<open>NaN\<close>.\<close>

lemma validateSignature_returns_iff:
  "validateSignature pf params secret = Inr () \<longleftrightarrow>
     (\<exists>qs. queryString params = Inr qs \<and>
        map_of params (js ''signature'') = Some (hmac_sha256_base64 pf secret qs) \<and>
        (case Date_getTime pf (map_of params (js ''issuedAt'')) of
           None \<Rightarrow> True
         | Some issuedAt \<Rightarrow> Date_now pf \<le> issuedAt + 60000))"
  by (auto simp: validateSignature_def Let_def num_gt_def num_add_def SIGNATURE_WINDOW_SIZE_def
      split: sum.splits option.splits)

text \<open>
  C1 (the claim: validateSignature returns normally if and only if the digest equals
  \<open>params.signature\<close> and the current time is at most \<open>issuedAt + 60000\<close>; in particular
  it fails when \<open>params.issuedAt\<close> does not parse to an instant). The code compares
  \<open>Date.now() > issuedAt + SIGNATURE_WINDOW_SIZE\<close>, which is false when \<open>issuedAt\<close> is
  \<open>NaN\<close>: for the parameters \<open>{issuedAt: "not a date", signature: <the digest of
  issuedAt=not%20a%20date under s3cr3t>}\<close> and the secret \<open>s3cr3t\<close> it returns normally,
  whatever the time \<open>now\<close> of the call.
\<close>

theorem validateSignature_accepts_unparseable_issuedAt:
  "validateSignature (example_platform \<lparr> Date_now := now \<rparr>) undated_params (js ''s3cr3t'')
     = Inr ()"
  by (simp add: example_platform_def undated_params_def hmac_fragment_def getTime_fragment_def
      signing_defs)

section \<open>Theorems on the API wrapper\<close>

lemma this_member_request: "this_member ''request'' = Some request"
  by (simp add: this_member_def API_prototype_def)

lemma this_member_underscore_request: "this_member ''_request'' = None"
  by (simp add: this_member_def)

lemma API_example: "API example_config = Inr example_client"
  by (simp add: API_def example_config_def example_client_def or_default_def truthy_def
      toString_def js_def)

lemma invokeCallback_cases:
  "callbacks (invokeCallback callback args) = [] \<or>
   (\<exists>f. callback = Function f \<and> callbacks (invokeCallback callback args) = [(f, args)])"
  by (cases callback) (simp_all add: invokeCallback_def no_effects_def threw_def)

lemma invoked_args:
  "(f, args) \<in> set (callbacks (invokeCallback callback args')) \<Longrightarrow> args = args'"
  using invokeCallback_cases [of callback args'] by auto

lemma request_reply:
  "request rt this method path data options callback =
     (case http_transport rt
             (buildRequest this method path data (fst (optionsOrCallback options callback))) of
        Response statusCode chunks \<Rightarrow>
          onEnd rt (snd (optionsOrCallback options callback)) statusCode (concat chunks)
      | RequestError error \<Rightarrow> onError (snd (optionsOrCallback options callback)) error)
     \<lparr> requests :=
         [buildRequest this method path data (fst (optionsOrCallback options callback))] \<rparr>"
  by (cases "optionsOrCallback options callback")
     (simp add: request_def Let_def split: reply.splits)

lemma request_Response:
  assumes "http_transport rt (buildRequest this method path data opts) = Response st chunks"
  shows "request rt this method path data (Object opts) callback =
     (onEnd rt callback st (concat chunks))
       \<lparr> requests := [buildRequest this method path data opts] \<rparr>"
  using assms by (simp add: request_def optionsOrCallback_def Let_def)

lemma onEnd_args:
  assumes "(f, args) \<in> set (callbacks (onEnd rt callback st body))"
  shows "args = (if st = 204 then [JNull, JBool True]
                 else case JSON_parse rt body of
                        None \<Rightarrow> [unexpectedReply body, JNull]
                      | Some v \<Rightarrow> if 200 \<le> st \<and> st < 300 then [JNull, v] else [v, JNull])"
  using assms by (auto simp: onEnd_def split: if_splits option.splits dest: invoked_args)

subsection \<open>The members and the pipeline\<close>

text \<open>\<open>get\<close>, \<open>delete\<close> and \<open>post\<close> call \<open>this.request\<close>, and \<open>request\<close> issues one
  HTTP request.\<close>

lemma get_calls_request:
  "get rt this path options callback
     = request rt this (js ''GET'') path None options callback"
  by (simp add: get_def call_this_def this_member_request)

lemma delete_calls_request:
  "delete rt this path options callback
     = request rt this (js ''DELETE'') path None options callback"
  by (simp add: delete_def call_this_def this_member_request)

lemma post_calls_request:
  "post rt this path data options callback
     = request rt this (js ''POST'') path (JSON_stringify rt data) options callback"
  by (simp add: post_def call_this_def this_member_request)

lemma request_issues_one_request:
  "length (requests (request rt this method path data options callback)) = 1"
  by (simp add: request_reply)

text \<open>
  C2 (the claim: every public operation routes through the one request pipeline; in
  particular \<open>put\<close> and \<open>postAction\<close> issue exactly one HTTP request and deliver its
  outcome through the callback, as \<open>get\<close>, \<open>delete\<close> and \<open>post\<close> do). \<open>put\<close> and
  \<open>postAction\<close> call \<open>this._request\<close>, a member that the file does not define: every call
  of \<open>put\<close> ends with a \<open>TypeError\<close>, and so does every call of \<open>postAction\<close> (with a
  \<open>URIError\<close> instead when the form data cannot be encoded); neither issues an HTTP
  request nor invokes a callback.
\<close>

theorem put_and_postAction_throw_TypeError:
  "put rt this path data options callback = threw TypeError \<and>
   requests (postAction rt this path form options callback) = [] \<and>
   callbacks (postAction rt this path form options callback) = [] \<and>
   thrown (postAction rt this path form options callback) \<noteq> None \<and>
   postAction rt this path None options callback = threw TypeError"
  by (simp add: put_def postAction_def call_this_def this_member_underscore_request threw_def
      no_effects_def postAction_arguments_def formData_def split: sum.splits prod.splits)

subsection \<open>The constructor\<close>

text \<open>
  C6, as the claim states it: the access token is derived exactly when both \<open>appId\<close> and
  \<open>appSecret\<close> are present. The constructor tests \<open>this.appId && this.appSecret\<close>: an
  \<open>appId\<close> that is present and is the empty string derives no token.
\<close>

theorem API_empty_appId_counterexample:
  "API \<lparr> scheme = Some (js ''https''), hostname = Some (js ''api.speakap.io''),
         appId = Some [], appSecret = Some (js ''secret''), apiVersion = None \<rparr>
   = Inr \<lparr> this_scheme = Some (js ''https''), this_hostname = Some (js ''api.speakap.io''),
           this_appId = Some [], this_appSecret = Some (js ''secret''),
           this_apiVersion = js ''1.1'', this_accessToken = None \<rparr>"
  by (simp add: API_def or_default_def truthy_def toString_def js_def)

text \<open>
  C6, amended: constructing a client fails, with the error of an invalid configuration, if
  and only if \<open>config.scheme\<close> is neither exactly \<open>http\<close> nor exactly \<open>https\<close>, and it
  fails in no other way; the constructor has no access to the network. A successful
  construction derives the access token \<open>appId + "_" + appSecret\<close> exactly when both
  \<open>appId\<close> and \<open>appSecret\<close> are present and not empty.
\<close>

theorem API_construction:
  "(API config = Inl InvalidConfig \<longleftrightarrow>
      scheme config \<noteq> Some (js ''http'') \<and> scheme config \<noteq> Some (js ''https'')) \<and>
   (\<forall>e. API config = Inl e \<longrightarrow> e = InvalidConfig) \<and>
   (\<forall>this. API config = Inr this \<longrightarrow>
      (\<forall>i s. appId config = Some i \<and> appSecret config = Some s \<and> i \<noteq> [] \<and> s \<noteq> [] \<longrightarrow>
         this_accessToken this = Some (i @ js ''_'' @ s)) \<and>
      (appId config = None \<or> appId config = Some [] \<or>
       appSecret config = None \<or> appSecret config = Some [] \<longrightarrow>
         this_accessToken this = None))"
  by (auto simp: API_def truthy_def toString_def split: if_splits)

theorem API_construction_witness:
  "API example_config \<noteq> Inl InvalidConfig \<and> API example_config = Inr example_client \<and>
   this_accessToken example_client = Some (js ''app_secret'')"
  using API_construction [of example_config] API_example
  by (simp add: example_config_def example_client_def js_def)

subsection \<open>Responses\<close>

text \<open>
  C7: for a completed response to a call of \<open>request\<close> with a callback \<open>f\<close>: status 204
  gives \<open>f(null, true)\<close> and nothing is parsed; another status from 200 to 299 gives
  \<open>f(null, parsed body)\<close>; any other status gives \<open>f(parsed body, null)\<close>; and when
  \<open>JSON.parse\<close> throws, on either path, \<open>f\<close> receives the error with code \<open>-1001\<close>, the
  message \<open>Unexpected Reply\<close> and the body as it arrived as description.
\<close>

theorem response_classification:
  assumes "http_transport rt (buildRequest this method path data opts) = Response st chunks"
  shows
    "(st = 204 \<longrightarrow>
        callbacks (request rt this method path data (Object opts) (Function f))
          = [(f, [JNull, JBool True])] \<and>
        parses (request rt this method path data (Object opts) (Function f)) = []) \<and>
     (\<forall>v. st \<noteq> 204 \<and> 200 \<le> st \<and> st \<le> 299 \<and> JSON_parse rt (concat chunks) = Some v \<longrightarrow>
        callbacks (request rt this method path data (Object opts) (Function f))
          = [(f, [JNull, v])]) \<and>
     (\<forall>v. (st < 200 \<or> 299 < st) \<and> JSON_parse rt (concat chunks) = Some v \<longrightarrow>
        callbacks (request rt this method path data (Object opts) (Function f))
          = [(f, [v, JNull])]) \<and>
     (st \<noteq> 204 \<and> JSON_parse rt (concat chunks) = None \<longrightarrow>
        callbacks (request rt this method path data (Object opts) (Function f))
          = [(f, [JObj [(js ''code'', JNum (- 1001)),
                        (js ''message'', JStr (js ''Unexpected Reply'')),
                        (js ''description'', JStr (concat chunks))],
                  JNull])])"
  unfolding request_Response [OF assms]
  by (simp add: onEnd_def invokeCallback_def no_effects_def unexpectedReply_def)

text \<open>The four cases, on the server that answers by path.\<close>

theorem response_classification_witness:
  "callbacks (request mock_runtime example_client (js ''GET'') (js ''/no-content'') None
      (Object empty_options) (Function 7)) = [(7, [JNull, JBool True])] \<and>
   parses (request mock_runtime example_client (js ''GET'') (js ''/no-content'') None
      (Object empty_options) (Function 7)) = [] \<and>
   callbacks (request mock_runtime example_client (js ''GET'') (js ''/list'') None
      (Object empty_options) (Function 7)) = [(7, [JNull, JArr []])] \<and>
   callbacks (request mock_runtime example_client (js ''GET'') (js ''/missing'') None
      (Object empty_options) (Function 7)) = [(7, [JObj [], JNull])] \<and>
   callbacks (request mock_runtime example_client (js ''GET'') (js ''/garbled'') None
      (Object empty_options) (Function 7)) =
     [(7, [JObj [(js ''code'', JNum (- 1001)),
                 (js ''message'', JStr (js ''Unexpected Reply'')),
                 (js ''description'', JStr (js ''not json''))],
           JNull])]"
proof -
  have a: "http_transport mock_runtime
      (buildRequest example_client (js ''GET'') (js ''/no-content'') None empty_options)
      = Response 204 []"
    by (simp add: mock_runtime_def mock_server_def buildRequest_def js_def)
  have b: "http_transport mock_runtime
      (buildRequest example_client (js ''GET'') (js ''/list'') None empty_options)
      = Response 200 [js ''['', js '']'']"
    by (simp add: mock_runtime_def mock_server_def buildRequest_def js_def)
  have c: "http_transport mock_runtime
      (buildRequest example_client (js ''GET'') (js ''/missing'') None empty_options)
      = Response 404 [js ''{}'']"
    by (simp add: mock_runtime_def mock_server_def buildRequest_def js_def)
  have d: "http_transport mock_runtime
      (buildRequest example_client (js ''GET'') (js ''/garbled'') None empty_options)
      = Response 200 [js ''not json'']"
    by (simp add: mock_runtime_def mock_server_def buildRequest_def js_def)
  have p: "JSON_parse mock_runtime (concat [js ''['', js '']'']) = Some (JArr [])"
    "JSON_parse mock_runtime (concat [js ''{}'']) = Some (JObj [])"
    "JSON_parse mock_runtime (concat [js ''not json'']) = None"
    by (simp_all add: mock_runtime_def JSON_parse_fragment_def js_def)
  from response_classification [OF a, of 7] response_classification [OF b, of 7]
    response_classification [OF c, of 7] response_classification [OF d, of 7] p
  show ?thesis
    by simp
qed

subsection \<open>The arguments of the callback\<close>

text \<open>
  C8, as the claim states it: exactly one of \<open>error\<close> and \<open>result\<close> is populated, also
  for a 2xx response whose body parses to \<open>null\<close>. For status 200 and the body \<open>null\<close>
  the callback is invoked as \<open>callback(null, null)\<close>: neither argument is populated.
\<close>

theorem null_body_counterexample:
  "callbacks (request mock_runtime example_client (js ''GET'') (js ''/null'') None
      (Object empty_options) (Function 7)) = [(7, [JNull, JNull])] \<and>
   \<not> populated [JNull, JNull] 0 \<and> \<not> populated [JNull, JNull] 1"
  by (simp add: concrete_defs)

text \<open>
  C8, amended: whenever a callback is invoked, its two arguments are never both populated.
  On a transport failure it receives the error with code \<open>-1000\<close> that wraps the
  underlying error, and no result. Exactly one argument is populated on a transport
  failure, on status 204, when \<open>JSON.parse\<close> throws, and whenever the body parses to a
  value that is not \<open>null\<close> (\<open>false\<close> included). A response with another status from
  200 to 299 whose body parses to \<open>null\<close> invokes the callback with \<open>(null, null)\<close>.
\<close>

theorem callback_arguments:
  assumes "(f, args) \<in> set (callbacks (request rt this method path data options callback))"
    and "requests (request rt this method path data options callback) = [req]"
  shows
    "\<not> (populated args 0 \<and> populated args 1) \<and>
     (\<forall>error. http_transport rt req = RequestError error \<longrightarrow>
        args = [JObj [(js ''code'', JNum (- 1000)),
                      (js ''message'', JStr (js ''Request Failed'')),
                      (js ''requestError'', error)]]) \<and>
     ((case http_transport rt req of
         RequestError error \<Rightarrow> True
       | Response st chunks \<Rightarrow> st = 204 \<or> JSON_parse rt (concat chunks) \<noteq> Some JNull) \<longrightarrow>
        populated args 0 \<noteq> populated args 1) \<and>
     (\<forall>st chunks. http_transport rt req = Response st chunks \<and> st \<noteq> 204 \<and> 200 \<le> st \<and>
        st \<le> 299 \<and> JSON_parse rt (concat chunks) = Some JNull \<longrightarrow> args = [JNull, JNull])"
proof -
  define opts where "opts = fst (optionsOrCallback options callback)"
  define cb where "cb = snd (optionsOrCallback options callback)"
  have req: "req = buildRequest this method path data opts"
    using assms(2) by (simp add: request_reply opts_def)
  show ?thesis
  proof (cases "http_transport rt req")
    case (RequestError error)
    then have "(f, args) \<in> set (callbacks (onError cb error))"
      using assms(1) by (simp add: request_reply req opts_def cb_def)
    then have "args = [requestFailed error]"
      by (auto simp: onError_def dest: invoked_args)
    then show ?thesis
      using RequestError by (simp add: requestFailed_def populated_def)
  next
    case (Response st chunks)
    then have "(f, args) \<in> set (callbacks (onEnd rt cb st (concat chunks)))"
      using assms(1) by (simp add: request_reply req opts_def cb_def)
    from onEnd_args [OF this] show ?thesis
      using Response
      by (auto simp: populated_def unexpectedReply_def split: if_splits option.splits)
  qed
qed

text \<open>A refused connection, and status 200 with the body \<open>false\<close>.\<close>

theorem callback_arguments_witness:
  "(7, [JObj [(js ''code'', JNum (- 1000)),
              (js ''message'', JStr (js ''Request Failed'')),
              (js ''requestError'', JStr (js ''ECONNREFUSED''))]])
     \<in> set (callbacks (request mock_runtime example_client (js ''GET'') (js ''/offline'') None
                (Object empty_options) (Function 7))) \<and>
   (7, [JNull, JBool False])
     \<in> set (callbacks (request mock_runtime example_client (js ''GET'') (js ''/false'') None
                (Object empty_options) (Function 7))) \<and>
   populated [JNull, JBool False] 0 \<noteq> populated [JNull, JBool False] 1"
proof -
  let ?E = "request mock_runtime example_client (js ''GET'') (js ''/false'') None
              (Object empty_options) (Function 7)"
  let ?req = "buildRequest example_client (js ''GET'') (js ''/false'') None empty_options"
  have i: "(7, [JNull, JBool False]) \<in> set (callbacks ?E)"
    by (simp add: concrete_defs)
  have r: "requests ?E = [?req]"
    by (simp add: request_def optionsOrCallback_def Let_def)
  have t: "http_transport mock_runtime ?req = Response 200 [js ''fal'', js ''se'']"
    by (simp add: mock_runtime_def mock_server_def buildRequest_def js_def)
  have "populated [JNull, JBool False] 0 \<noteq> populated [JNull, JBool False] 1"
    using callback_arguments [OF i r] t
    by (simp add: mock_runtime_def JSON_parse_fragment_def js_def)
  moreover have "(7, [JObj [(js ''code'', JNum (- 1000)),
              (js ''message'', JStr (js ''Request Failed'')),
              (js ''requestError'', JStr (js ''ECONNREFUSED''))]])
     \<in> set (callbacks (request mock_runtime example_client (js ''GET'') (js ''/offline'') None
                (Object empty_options) (Function 7)))"
    by (simp add: concrete_defs)
  ultimately show ?thesis using i by simp
qed

subsection \<open>The Authorization header\<close>

text \<open>
  C9, as the claim states it: the header is \<open>Bearer\<close> followed by the per-call
  \<open>options.accessToken\<close> when one is given. The code takes
  \<open>options.accessToken || this.accessToken\<close>: a per-call token that is given as the empty
  string is passed over, and the header carries the token of the client.
\<close>

theorem empty_per_call_token_counterexample:
  "map (\<lambda>req. Authorization (req_headers req))
     (requests (request mock_runtime example_client (js ''GET'') (js ''/list'') None
        (Object (empty_options \<lparr> accessToken := Some [] \<rparr>)) (Function 7)))
   = [Some (js ''Bearer app_secret'')] \<and>
   js ''Bearer app_secret'' \<noteq> js ''Bearer '' @ []"
  by (simp add: concrete_defs)

text \<open>
  C9, amended: the request that \<open>request\<close> issues carries the header \<open>Authorization\<close> with
  \<open>Bearer\<close> followed by the per-call \<open>options.accessToken\<close> when one is given and is not
  empty, otherwise by the token of the client when there is one (not empty); when there is
  neither, the request carries no \<open>Authorization\<close> header.
\<close>

theorem authorization_header:
  assumes "requests (request rt this method path data (Object opts) callback) = [req]"
  shows
    "(\<forall>t. accessToken opts = Some t \<and> t \<noteq> [] \<longrightarrow>
        Authorization (req_headers req) = Some (js ''Bearer '' @ t)) \<and>
     (\<forall>c. (accessToken opts = None \<or> accessToken opts = Some []) \<and>
          this_accessToken this = Some c \<and> c \<noteq> [] \<longrightarrow>
        Authorization (req_headers req) = Some (js ''Bearer '' @ c)) \<and>
     ((accessToken opts = None \<or> accessToken opts = Some []) \<and>
      (this_accessToken this = None \<or> this_accessToken this = Some []) \<longrightarrow>
        Authorization (req_headers req) = None)"
proof -
  have "req = buildRequest this method path data opts"
    using assms by (simp add: request_reply optionsOrCallback_def)
  then show ?thesis
    by (auto simp: buildRequest_def requestHeaders_def or_else_def truthy_def toString_def
        Let_def split: option.splits)
qed

theorem authorization_header_witness:
  "map (\<lambda>req. Authorization (req_headers req))
     (requests (request mock_runtime example_client (js ''GET'') (js ''/list'') None
        (Object (empty_options \<lparr> accessToken := Some (js ''user-token'') \<rparr>)) (Function 7)))
   = [Some (js ''Bearer user-token'')]"
proof -
  let ?o = "empty_options \<lparr> accessToken := Some (js ''user-token'') \<rparr>"
  let ?req = "buildRequest example_client (js ''GET'') (js ''/list'') None ?o"
  have r: "requests (request mock_runtime example_client (js ''GET'') (js ''/list'') None
        (Object ?o) (Function 7)) = [?req]"
    by (simp add: request_reply optionsOrCallback_def)
  have "js ''user-token'' \<noteq> []"
    by (simp add: js_def)
  then have "Authorization (req_headers ?req) = Some (js ''Bearer '' @ js ''user-token'')"
    using authorization_header [OF r] by simp
  then show ?thesis
    unfolding r by (simp add: js_def)
qed

subsection \<open>Options that are not an object\<close>

text \<open>
  In \<open>request\<close>, an \<open>options\<close> argument that is omitted (\<open>undefined\<close>), a function, or
  any other value that is not an object takes the place of the callback, and the options
  are the empty object: \<open>request\<close> behaves as with the options \<open>{}\<close> and that callback;
  only a function in the place of \<open>options\<close> is ever invoked; and the request carries the
  default \<open>Accept\<close> header, the token of the client and, with data, the content type of
  JSON.
\<close>

lemma request_options_defaulting:
  assumes "\<forall>opts. options \<noteq> Object opts"
  shows
    "request rt this method path data options callback
       = request rt this method path data (Object empty_options) options \<and>
     (\<forall>g args. (g, args) \<in> set (callbacks (request rt this method path data options callback))
        \<longrightarrow> options = Function g) \<and>
     map req_headers (requests (request rt this method path data options callback)) =
       [\<lparr> Accept = js ''application/vnd.speakap.api-v'' @ this_apiVersion this @ js ''+json'',
          Authorization =
            (case this_accessToken this of
               None \<Rightarrow> None
             | Some c \<Rightarrow> if c = [] then None else Some (js ''Bearer '' @ c)),
          Content_length =
            (case data of
               None \<Rightarrow> None
             | Some d \<Rightarrow> if d = [] then None else Some (byteLength d)),
          Content_type =
            (case data of
               None \<Rightarrow> None
             | Some d \<Rightarrow>
                 if d = [] then None else Some (js ''application/json; charset=utf-8'')) \<rparr>]"
proof -
  have o: "optionsOrCallback options callback = (empty_options, options)"
    using assms by (cases options) (simp_all add: optionsOrCallback_def)
  have o': "optionsOrCallback (Object empty_options) options = (empty_options, options)"
    by (simp add: optionsOrCallback_def)
  have 1: "request rt this method path data options callback
       = request rt this method path data (Object empty_options) options"
    by (simp add: request_def o o')
  have 2: "options = Function g"
    if "(g, args) \<in> set (callbacks (request rt this method path data options callback))"
    for g args
  proof -
    have "(g, args) \<in> set (callbacks (invokeCallback options a)) \<Longrightarrow> options = Function g" for a
      using invokeCallback_cases [of options a] by auto
    then show ?thesis
      using that
      by (auto simp: request_reply o onEnd_def onError_def
          split: reply.splits if_splits option.splits)
  qed
  have 3: "map req_headers (requests (request rt this method path data options callback)) =
       [\<lparr> Accept = js ''application/vnd.speakap.api-v'' @ this_apiVersion this @ js ''+json'',
          Authorization =
            (case this_accessToken this of
               None \<Rightarrow> None
             | Some c \<Rightarrow> if c = [] then None else Some (js ''Bearer '' @ c)),
          Content_length =
            (case data of
               None \<Rightarrow> None
             | Some d \<Rightarrow> if d = [] then None else Some (byteLength d)),
          Content_type =
            (case data of
               None \<Rightarrow> None
             | Some d \<Rightarrow>
                 if d = [] then None else Some (js ''application/json; charset=utf-8'')) \<rparr>]"
    by (simp add: request_reply o buildRequest_def requestHeaders_def empty_options_def
        or_else_def or_default_def truthy_def toString_def Let_def js_def
        split: option.splits)
  from 1 2 3 show ?thesis by blast
qed

text \<open>\<open>request("POST", "/list", null, f)\<close>: the function \<open>f\<close> is the callback, and the
  request carries the defaults.\<close>

lemma request_options_defaulting_example:
  "callbacks (request mock_runtime example_client (js ''POST'') (js ''/list'') None
      (Function 7) Undefined) = [(7, [JNull, JArr []])] \<and>
   map req_headers (requests (request mock_runtime example_client (js ''POST'') (js ''/list'')
      None (Function 7) Undefined)) =
     [\<lparr> Accept = js ''application/vnd.speakap.api-v1.1+json'',
        Authorization = Some (js ''Bearer app_secret''),
        Content_length = None, Content_type = None \<rparr>]"
proof -
  have "\<forall>opts. Function 7 \<noteq> Object opts"
    by simp
  from request_options_defaulting [OF this, of mock_runtime example_client "js ''POST''"
      "js ''/list''" None Undefined]
  show ?thesis
    by (simp add: concrete_defs)
qed

text \<open>
  C10 (the claim: when the \<open>options\<close> argument of \<open>request\<close> or \<open>postAction\<close> is omitted,
  a function, or any value that is not an object, it is treated as the callback and
  replaced by an empty options object, so that all per-call defaults apply). \<open>request\<close>
  does this. \<open>postAction\<close> performs the same replacement and then calls \<open>this._request\<close>,
  which the file does not define: for \<open>postAction("/list", null, f)\<close>, with a server that
  answers the path with status 200 and the body \<open>[]\<close>, the call ends with a
  \<open>TypeError\<close>, no request with the default headers is issued and \<open>f\<close> is never invoked;
  the same call through \<open>request\<close> invokes \<open>f(null, [])\<close>. With form data and with the
  options omitted the outcome is the same.
\<close>

theorem postAction_never_invokes_callback_given_as_options:
  "postAction mock_runtime example_client (js ''/list'') None (Function 7) Undefined
     = threw TypeError \<and>
   requests (postAction mock_runtime example_client (js ''/list'') None (Function 7) Undefined)
     = [] \<and>
   callbacks (postAction mock_runtime example_client (js ''/list'') None (Function 7) Undefined)
     = [] \<and>
   postAction mock_runtime example_client (js ''/list'') (Some [(js ''read'', js ''1'')])
       Undefined Undefined
     = threw TypeError \<and>
   callbacks (request mock_runtime example_client (js ''POST'') (js ''/list'') None
      (Function 7) Undefined) = [(7, [JNull, JArr []])]"
  by (simp add: postAction_def postAction_arguments_def formData_def formPair_def call_this_def
      this_member_underscore_request prepend_def uriUnescaped_def concrete_defs)

end
